theory Spec2Isabelle
  imports Main
begin

section \<open>Python values and exceptions\<close>

text \<open>
  The consumer's \<^verbatim>\<open>value_deserializer\<close> turns the bytes of a Kafka message into the
  Python value that \<^verbatim>\<open>json.loads\<close> returns, or into \<^verbatim>\<open>None\<close> when the message has no
  value. \<open>JNull\<close> is Python's \<^verbatim>\<open>None\<close>, an object is a \<^verbatim>\<open>dict\<close> (read through \<open>map_of\<close>),
  numbers are the integers of the wire shape (numbers with a fraction are not modelled).
\<close>

datatype json =
    JNull
  | JBool bool
  | JNum int
  | JStr string
  | JArr "json list"
  | JObj "(string \<times> json) list"

text \<open>
  The exceptions of the consumer: those that reach the \<^verbatim>\<open>except Exception\<close> handler of
  \<^verbatim>\<open>main\<close>, and \<open>ValueError\<close>, which \<^verbatim>\<open>json.loads\<close> and \<^verbatim>\<open>decode\<close> raise in the
  \<^verbatim>\<open>value_deserializer\<close> on bytes that are not UTF-8 encoded JSON.
\<close>

datatype exn =
    AttributeError
  | KeyError string
  | TypeError
  | DataError
  | IntegrityError
  | OperationalError
  | InterfaceError
  | ValueError

fun bindE :: "exn + 'a \<Rightarrow> ('a \<Rightarrow> exn + 'b) \<Rightarrow> exn + 'b" where
  "bindE (Inl e) f = Inl e"
| "bindE (Inr x) f = f x"

text \<open>Python truth value, as tested by \<^verbatim>\<open>if not value\<close>, \<^verbatim>\<open>if after\<close>, \<^verbatim>\<open>if before\<close>.\<close>

fun truthy :: "json \<Rightarrow> bool" where
  "truthy JNull = False"
| "truthy (JBool b) = b"
| "truthy (JNum n) = (n \<noteq> 0)"
| "truthy (JStr s) = (s \<noteq> [])"
| "truthy (JArr xs) = (xs \<noteq> [])"
| "truthy (JObj kvs) = (kvs \<noteq> [])"

text \<open>\<^verbatim>\<open>payload.get(k)\<close>: only a dict has \<^verbatim>\<open>get\<close>; a missing key gives \<^verbatim>\<open>None\<close>.\<close>

fun py_get :: "json \<Rightarrow> string \<Rightarrow> exn + json" where
  "py_get (JObj kvs) k = Inr (case map_of kvs k of None \<Rightarrow> JNull | Some v \<Rightarrow> v)"
| "py_get _ k = Inl AttributeError"

text \<open>\<^verbatim>\<open>after[k]\<close> with a string key: \<^verbatim>\<open>KeyError\<close> on a dict without the key,
  \<^verbatim>\<open>TypeError\<close> on every other value.\<close>

fun py_index :: "json \<Rightarrow> string \<Rightarrow> exn + json" where
  "py_index (JObj kvs) k = (case map_of kvs k of None \<Rightarrow> Inl (KeyError k) | Some v \<Rightarrow> Inr v)"
| "py_index _ k = Inl TypeError"

section \<open>The consumer: \<^verbatim>\<open>process_message\<close>\<close>

record message =
  msg_value :: json

text \<open>
  The three SQL statements of \<^verbatim>\<open>process_message\<close>, each with its parameter tuple in the
  order of the source:
  \<^item> \<open>Upsert order_id user_id name\<close>: \<^verbatim>\<open>INSERT INTO orders ... ON CONFLICT (order_id) DO UPDATE\<close>;
  \<^item> \<open>Update user_id name order_id\<close>: \<^verbatim>\<open>UPDATE orders SET user_id, name WHERE order_id\<close>;
  \<^item> \<open>Delete order_id\<close>: \<^verbatim>\<open>DELETE FROM orders WHERE order_id\<close>.
\<close>

datatype stmt =
    Upsert json json json
  | Update json json json
  | Delete json

text \<open>A cursor executes a statement on the destination state or raises.\<close>

type_synonym 's cursor = "stmt \<Rightarrow> 's \<Rightarrow> exn + 's"

definition process_message :: "message \<Rightarrow> 's cursor \<Rightarrow> 's \<Rightarrow> exn + 's" where
  "process_message message cursor s =
    (let value = msg_value message in
     if \<not> truthy value then Inr s
     else
       let payload = value in
       bindE (py_get payload ''op'') (\<lambda>op_v.
         if op_v = JStr ''c'' \<or> op_v = JStr ''r'' then
           bindE (py_get payload ''after'') (\<lambda>after_v.
             if truthy after_v then
               bindE (py_index after_v ''order_id'') (\<lambda>p1.
               bindE (py_index after_v ''user_id'') (\<lambda>p2.
               bindE (py_index after_v ''name'') (\<lambda>p3.
                 cursor (Upsert p1 p2 p3) s)))
             else Inr s)
         else if op_v = JStr ''u'' then
           bindE (py_get payload ''after'') (\<lambda>after_v.
             if truthy after_v then
               bindE (py_index after_v ''user_id'') (\<lambda>p1.
               bindE (py_index after_v ''name'') (\<lambda>p2.
               bindE (py_index after_v ''order_id'') (\<lambda>p3.
                 cursor (Update p1 p2 p3) s)))
             else Inr s)
         else if op_v = JStr ''d'' then
           bindE (py_get payload ''before'') (\<lambda>before_v.
             if truthy before_v then
               bindE (py_index before_v ''order_id'') (\<lambda>p1.
                 cursor (Delete p1) s)
             else Inr s)
         else Inr s))"

text \<open>
  The mutation that \<^verbatim>\<open>process_message\<close> hands to its cursor, read off with a cursor
  that only records the statement: \<open>Inr None\<close> when no statement is issued, \<open>Inl e\<close> when
  the function raises before it reaches the cursor.
\<close>

definition mutation_intent :: "message \<Rightarrow> exn + stmt option" where
  "mutation_intent message = process_message message (\<lambda>st _. Inr (Some st)) None"

fun stmt_key :: "stmt \<Rightarrow> json" where
  "stmt_key (Upsert k u n) = k"
| "stmt_key (Update u n k) = k"
| "stmt_key (Delete k) = k"

definition entity_key :: "message \<Rightarrow> json option" where
  "entity_key message =
    (case mutation_intent message of Inr (Some st) \<Rightarrow> Some (stmt_key st) | _ \<Rightarrow> None)"

section \<open>The destination table \<^verbatim>\<open>orders\<close>\<close>

text \<open>
  The table's declaration is not part of the sources, so the way the driver and the
  database turn a Python parameter into a column value is a parameter of the model:
  \<open>adapt c v = None\<close> means that the statement is rejected for that parameter.
  The table is keyed by \<^verbatim>\<open>order_id\<close> (the conflict target of the upsert); a row holds
  \<^verbatim>\<open>user_id\<close> and \<^verbatim>\<open>name\<close>.
\<close>

datatype sqlval = SqlNull | SqlInt int | SqlText string

datatype column = OrderId | UserId | Name

type_synonym adapter = "column \<Rightarrow> json \<Rightarrow> sqlval option"

type_synonym orders_table = "sqlval \<rightharpoonup> (sqlval \<times> sqlval)"

text \<open>
  The statements on a reachable database. A rejected parameter raises and changes nothing.
  A \<^verbatim>\<open>NULL\<close> key cannot be inserted, and \<^verbatim>\<open>WHERE order_id = NULL\<close> selects no row.
  The \<^verbatim>\<open>UPDATE\<close> of a key without a row changes nothing and raises nothing.
\<close>

fun pg_execute :: "adapter \<Rightarrow> orders_table cursor" where
  "pg_execute adapt (Upsert p1 p2 p3) t =
    (case (adapt OrderId p1, adapt UserId p2, adapt Name p3) of
       (Some k, Some u, Some n) \<Rightarrow>
         if k = SqlNull then Inl IntegrityError else Inr (t(k \<mapsto> (u, n)))
     | _ \<Rightarrow> Inl DataError)"
| "pg_execute adapt (Update p1 p2 p3) t =
    (case (adapt UserId p1, adapt Name p2, adapt OrderId p3) of
       (Some u, Some n, Some k) \<Rightarrow>
         if k = SqlNull \<or> t k = None then Inr t else Inr (t(k \<mapsto> (u, n)))
     | _ \<Rightarrow> Inl DataError)"
| "pg_execute adapt (Delete p1) t =
    (case adapt OrderId p1 of
       Some k \<Rightarrow> if k = SqlNull then Inr t else Inr (t(k := None))
     | None \<Rightarrow> Inl DataError)"

text \<open>
  Modelled from the spec: the declaration of the destination columns is missing from the
  sources; the wire shape gives \<^verbatim>\<open>order_id\<close> and \<^verbatim>\<open>user_id\<close> as integers and \<^verbatim>\<open>name\<close> as a
  string. This adapter accepts exactly those (and \<^verbatim>\<open>None\<close> as \<^verbatim>\<open>NULL\<close>); it is the
  instance at which concrete runs are evaluated.
\<close>

fun wire_adapt :: adapter where
  "wire_adapt c JNull = Some SqlNull"
| "wire_adapt OrderId (JNum n) = Some (SqlInt n)"
| "wire_adapt UserId (JNum n) = Some (SqlInt n)"
| "wire_adapt Name (JStr s) = Some (SqlText s)"
| "wire_adapt c v = None"

section \<open>The consumer: the loop of \<^verbatim>\<open>main\<close>\<close>

text \<open>
  What the destination connection does while one message is handled:
  \<^item> \<open>Healthy\<close>: statements run on the table;
  \<^item> \<open>Failing\<close>: every statement raises, the connection stays open;
  \<^item> \<open>Broken\<close>: the server is gone and the client has not noticed: \<^verbatim>\<open>conn.cursor()\<close> works,
    the first statement raises and closes the connection;
  \<^item> \<open>Closed\<close>: \<^verbatim>\<open>conn.cursor()\<close> and \<^verbatim>\<open>conn.rollback()\<close> raise.
\<close>

datatype conn_health = Healthy | Failing | Broken | Closed

fun conn_cursor :: "adapter \<Rightarrow> conn_health \<Rightarrow> exn + orders_table cursor" where
  "conn_cursor adapt Healthy = Inr (pg_execute adapt)"
| "conn_cursor adapt Failing = Inr (\<lambda>st t. Inl OperationalError)"
| "conn_cursor adapt Broken = Inr (\<lambda>st t. Inl OperationalError)"
| "conn_cursor adapt Closed = Inl InterfaceError"

text \<open>Whether \<^verbatim>\<open>process_message\<close> reaches \<^verbatim>\<open>cursor.execute\<close> for this message.\<close>

definition statement_sent :: "message \<Rightarrow> bool" where
  "statement_sent message =
    (case mutation_intent message of Inr (Some st) \<Rightarrow> True | _ \<Rightarrow> False)"

text \<open>The connection after \<^verbatim>\<open>process_message\<close>: a statement sent on a broken connection closes it.\<close>

fun conn_after :: "conn_health \<Rightarrow> bool \<Rightarrow> conn_health" where
  "conn_after Broken True = Closed"
| "conn_after h sent = h"

fun conn_rollback :: "conn_health \<Rightarrow> exn + unit" where
  "conn_rollback Closed = Inl InterfaceError"
| "conn_rollback _ = Inr ()"

text \<open>
  The state of the loop: the destination table, the lines printed by the handler
  (\<^verbatim>\<open>Error processing message: e\<close>, one per caught exception), and the consumer's position,
  the number of messages the iterator has handed out. The consumer is created with
  \<^verbatim>\<open>enable_auto_commit=True\<close>: the client commits this position by itself; the loop never
  commits an offset.
\<close>

record loop_state =
  orders :: orders_table
  printed :: "exn list"
  position :: nat

text \<open>
  The body of \<^verbatim>\<open>for message in consumer\<close> for one message: the second component is the
  exception that leaves the loop, raised by the unguarded \<^verbatim>\<open>conn.rollback()\<close> inside the
  handler when the connection is closed by then.
\<close>

definition main_step :: "adapter \<Rightarrow> conn_health \<times> message \<Rightarrow> loop_state \<Rightarrow> loop_state \<times> exn option" where
  "main_step adapt hm s =
    (let s1 = s\<lparr>position := position s + 1\<rparr> in
     case bindE (conn_cursor adapt (fst hm)) (\<lambda>cursor. process_message (snd hm) cursor (orders s1)) of
       Inr t \<Rightarrow> (s1\<lparr>orders := t\<rparr>, None)
     | Inl e \<Rightarrow>
         (let s2 = s1\<lparr>printed := printed s1 @ [e]\<rparr> in
          case conn_rollback (conn_after (fst hm) (statement_sent (snd hm))) of
            Inr _ \<Rightarrow> (s2, None)
          | Inl e' \<Rightarrow> (s2, Some e')))"

text \<open>
  The value of a Kafka message as it arrives: no value (a tombstone, or empty bytes), the
  bytes that \<^verbatim>\<open>json.loads\<close> decodes to a Python value, or bytes that it rejects.
\<close>

datatype raw_value = NoValue | Encoded json | Malformed

text \<open>\<^verbatim>\<open>lambda x: json.loads(x.decode('utf-8')) if x else None\<close>\<close>

fun value_deserializer :: "raw_value \<Rightarrow> exn + json" where
  "value_deserializer NoValue = Inr JNull"
| "value_deserializer (Encoded v) = Inr v"
| "value_deserializer Malformed = Inl ValueError"

definition encoded :: "message \<Rightarrow> raw_value" where
  "encoded message = Encoded (msg_value message)"

text \<open>
  The loop over the messages delivered so far. The deserializer runs inside the iterator,
  outside the \<^verbatim>\<open>try\<close> of the body, and the outer \<^verbatim>\<open>try\<close> catches \<^verbatim>\<open>KeyboardInterrupt\<close> only:
  an exception of the deserializer leaves the loop, and so does one of \<^verbatim>\<open>conn.rollback()\<close>.
  The message that could not be decoded is not handed out: the state is as before it.
\<close>

fun main_loop :: "adapter \<Rightarrow> (conn_health \<times> raw_value) list \<Rightarrow> loop_state \<Rightarrow> loop_state \<times> exn option" where
  "main_loop adapt [] s = (s, None)"
| "main_loop adapt ((h, x) # rest) s =
    (case value_deserializer x of
       Inl e \<Rightarrow> (s, Some e)
     | Inr v \<Rightarrow>
         (case main_step adapt (h, \<lparr>msg_value = v\<rparr>) s of
            (s', Some e) \<Rightarrow> (s', Some e)
          | (s', None) \<Rightarrow> main_loop adapt rest s'))"

section \<open>The Flink job: the \<^verbatim>\<open>INSERT INTO orders_flink_sink SELECT\<close> of \<^verbatim>\<open>submit_flink_sql_job\<close>\<close>

text \<open>
  The source table \<^verbatim>\<open>kafka_orders\<close>: two nullable rows, the operation and the timestamp.
  With \<^verbatim>\<open>json.fail-on-missing-field = false\<close> a missing field is \<^verbatim>\<open>NULL\<close>.
\<close>

record order_row =
  order_id :: "int option"
  user_id :: "int option"
  name :: "string option"

record kafka_orders =
  row_before :: "order_row option"
  row_after :: "order_row option"
  row_op :: "string option"
  ts_ms :: "int option"

text \<open>The sink table \<^verbatim>\<open>orders_flink_sink\<close> has two columns; \<^verbatim>\<open>order_id\<close> is its primary key.\<close>

record sink_row =
  sink_order_id :: "int option"
  sink_user_id :: "int option"

definition coalesce :: "'a option \<Rightarrow> 'a option \<Rightarrow> 'a option" where
  "coalesce a b = (case a of Some x \<Rightarrow> Some x | None \<Rightarrow> b)"

text \<open>A field of a nullable row: \<^verbatim>\<open>NULL\<close> when the row is \<^verbatim>\<open>NULL\<close>.\<close>

definition row_field :: "order_row option \<Rightarrow> (order_row \<Rightarrow> 'a option) \<Rightarrow> 'a option" where
  "row_field r f = (case r of None \<Rightarrow> None | Some x \<Rightarrow> f x)"

text \<open>The query: \<open>None\<close> when the \<^verbatim>\<open>WHERE\<close> clause filters the event out.\<close>

definition flink_select :: "kafka_orders \<Rightarrow> sink_row option" where
  "flink_select e =
    (if row_op e = Some ''c'' \<or> row_op e = Some ''r'' \<or> row_op e = Some ''u'' then
       Some \<lparr>sink_order_id = coalesce (row_field (row_after e) order_id) (row_field (row_before e) order_id),
             sink_user_id = coalesce (row_field (row_after e) user_id) (row_field (row_before e) user_id)\<rparr>
     else None)"

text \<open>
  The table \<^verbatim>\<open>orders_flink\<close> behind the sink, keyed by \<^verbatim>\<open>order_id\<close>. The query's result is
  insert-only and the sink has a primary key, so each row is written as an upsert; a row
  whose key is \<^verbatim>\<open>NULL\<close> cannot be written (\<open>None\<close>), and the job stops there.
\<close>

type_synonym flink_table = "int \<rightharpoonup> int option"

definition sink_write :: "sink_row \<Rightarrow> flink_table \<Rightarrow> flink_table option" where
  "sink_write r t =
    (case sink_order_id r of None \<Rightarrow> None | Some k \<Rightarrow> Some (t(k \<mapsto> sink_user_id r)))"

datatype job_status = Running | JobFailed

fun flink_job :: "kafka_orders list \<Rightarrow> flink_table \<Rightarrow> flink_table \<times> job_status" where
  "flink_job [] t = (t, Running)"
| "flink_job (e # es) t =
    (case flink_select e of
       None \<Rightarrow> flink_job es t
     | Some r \<Rightarrow>
         (case sink_write r t of
            None \<Rightarrow> (t, JobFailed)
          | Some t' \<Rightarrow> flink_job es t'))"

section \<open>The key rule in the words of the specification\<close>

text \<open>
  The specification derives the entity key as \<^verbatim>\<open>COALESCE(after.key, before.key)\<close>: the key
  of \<^verbatim>\<open>after\<close> when there is one, else the key of \<^verbatim>\<open>before\<close>. This definition follows
  those words on the payload of a message; it is compared with \<open>entity_key\<close>, which is
  read off the code.
\<close>

definition projection_key :: "json \<Rightarrow> string \<Rightarrow> json option" where
  "projection_key payload side =
    (case bindE (py_get payload side) (\<lambda>p. py_index p ''order_id'') of
       Inr k \<Rightarrow> (if k = JNull then None else Some k)
     | Inl _ \<Rightarrow> None)"

definition spec_coalesce_key :: "message \<Rightarrow> json option" where
  "spec_coalesce_key message =
    coalesce (projection_key (msg_value message) ''after'')
             (projection_key (msg_value message) ''before'')"

section \<open>Events used in concrete runs\<close>

definition order_obj :: "int \<Rightarrow> int \<Rightarrow> string \<Rightarrow> json" where
  "order_obj k u n = JObj [(''order_id'', JNum k), (''user_id'', JNum u), (''name'', JStr n)]"

definition create_1_5_A :: message where
  "create_1_5_A = \<lparr>msg_value = JObj [(''op'', JStr ''c''), (''after'', order_obj 1 5 ''A'')]\<rparr>"

definition update_1_9_B :: message where
  "update_1_9_B = \<lparr>msg_value = JObj [(''op'', JStr ''u''), (''after'', order_obj 1 9 ''B'')]\<rparr>"

definition delete_1 :: message where
  "delete_1 = \<lparr>msg_value = JObj [(''op'', JStr ''d''), (''before'', JObj [(''order_id'', JNum 1)])]\<rparr>"

definition create_7_3_Ann :: message where
  "create_7_3_Ann = \<lparr>msg_value = JObj [(''op'', JStr ''c''), (''after'', order_obj 7 3 ''Ann'')]\<rparr>"

definition delete_1_after_2 :: message where
  "delete_1_after_2 =
    \<lparr>msg_value = JObj [(''before'', order_obj 1 5 ''A''), (''after'', order_obj 2 5 ''A''),
                       (''op'', JStr ''d'')]\<rparr>"

definition create_without_after :: message where
  "create_without_after =
    \<lparr>msg_value = JObj [(''before'', JNull), (''after'', JNull), (''op'', JStr ''c'')]\<rparr>"

definition unknown_op :: message where
  "unknown_op = \<lparr>msg_value = JObj [(''op'', JStr ''t''), (''after'', order_obj 1 5 ''A'')]\<rparr>"

definition empty_state :: loop_state where
  "empty_state = \<lparr>orders = Map.empty, printed = [], position = 0\<rparr>"

definition flink_create_7_3_Ann :: kafka_orders where
  "flink_create_7_3_Ann =
    \<lparr>row_before = None,
     row_after = Some \<lparr>order_id = Some 7, user_id = Some 3, name = Some ''Ann''\<rparr>,
     row_op = Some ''c'', ts_ms = Some 0\<rparr>"

definition flink_delete_7 :: kafka_orders where
  "flink_delete_7 =
    \<lparr>row_before = Some \<lparr>order_id = Some 7, user_id = Some 3, name = Some ''Ann''\<rparr>,
     row_after = None,
     row_op = Some ''d'', ts_ms = Some 1\<rparr>"

section \<open>What \<^verbatim>\<open>process_message\<close> hands to the cursor\<close>

lemma process_message_intent:
  "process_message m cursor s =
     (case mutation_intent m of
        Inl e \<Rightarrow> Inl e
      | Inr None \<Rightarrow> Inr s
      | Inr (Some st) \<Rightarrow> cursor st s)"
  unfolding mutation_intent_def process_message_def Let_def
  by (cases "py_get (msg_value m) ''op''";
      cases "py_get (msg_value m) ''after''";
      cases "py_get (msg_value m) ''before''";
      simp;
      (cases "py_index (projr (py_get (msg_value m) ''after'')) ''order_id''";
       cases "py_index (projr (py_get (msg_value m) ''after'')) ''user_id''";
       cases "py_index (projr (py_get (msg_value m) ''after'')) ''name''";
       cases "py_index (projr (py_get (msg_value m) ''before'')) ''order_id''";
       simp))

lemma py_get_str_truthy: "py_get v k = Inr (JStr x) \<Longrightarrow> truthy v"
  by (cases v) (auto split: option.splits)

lemma py_index_Inr_truthy: "py_index p k = Inr x \<Longrightarrow> truthy p"
  by (cases p) (auto split: option.splits)

lemma intent_create:
  assumes "py_get (msg_value m) ''op'' = Inr (JStr opn)" "opn = ''c'' \<or> opn = ''r''"
    and "py_get (msg_value m) ''after'' = Inr a"
    and "py_index a ''order_id'' = Inr pk"
    and "py_index a ''user_id'' = Inr pu"
    and "py_index a ''name'' = Inr pn"
  shows "mutation_intent m = Inr (Some (Upsert pk pu pn))"
  using assms py_get_str_truthy[OF assms(1)] py_index_Inr_truthy[OF assms(4)]
  by (auto simp add: mutation_intent_def process_message_def)

lemma intent_update:
  assumes "py_get (msg_value m) ''op'' = Inr (JStr ''u'')"
    and "py_get (msg_value m) ''after'' = Inr a"
    and "py_index a ''order_id'' = Inr pk"
    and "py_index a ''user_id'' = Inr pu"
    and "py_index a ''name'' = Inr pn"
  shows "mutation_intent m = Inr (Some (Update pu pn pk))"
  using assms py_get_str_truthy[OF assms(1)] py_index_Inr_truthy[OF assms(3)]
  by (simp add: mutation_intent_def process_message_def)

lemma intent_delete:
  assumes "py_get (msg_value m) ''op'' = Inr (JStr ''d'')"
    and "py_get (msg_value m) ''before'' = Inr b"
    and "py_index b ''order_id'' = Inr pk"
  shows "mutation_intent m = Inr (Some (Delete pk))"
  using assms py_get_str_truthy[OF assms(1)] py_index_Inr_truthy[OF assms(3)]
  by (simp add: mutation_intent_def process_message_def)

lemma bindE_eq_Inr: "bindE r f = Inr y \<longleftrightarrow> (\<exists>x. r = Inr x \<and> f x = Inr y)"
  by (cases r) auto

lemma intent_unfold:
  "mutation_intent m =
    (if \<not> truthy (msg_value m) then Inr None
     else
       bindE (py_get (msg_value m) ''op'') (\<lambda>op_v.
         if op_v = JStr ''c'' \<or> op_v = JStr ''r'' then
           bindE (py_get (msg_value m) ''after'') (\<lambda>after_v.
             if truthy after_v then
               bindE (py_index after_v ''order_id'') (\<lambda>p1.
               bindE (py_index after_v ''user_id'') (\<lambda>p2.
               bindE (py_index after_v ''name'') (\<lambda>p3.
                 Inr (Some (Upsert p1 p2 p3)))))
             else Inr None)
         else if op_v = JStr ''u'' then
           bindE (py_get (msg_value m) ''after'') (\<lambda>after_v.
             if truthy after_v then
               bindE (py_index after_v ''user_id'') (\<lambda>p1.
               bindE (py_index after_v ''name'') (\<lambda>p2.
               bindE (py_index after_v ''order_id'') (\<lambda>p3.
                 Inr (Some (Update p1 p2 p3)))))
             else Inr None)
         else if op_v = JStr ''d'' then
           bindE (py_get (msg_value m) ''before'') (\<lambda>before_v.
             if truthy before_v then
               bindE (py_index before_v ''order_id'') (\<lambda>p1.
                 Inr (Some (Delete p1)))
             else Inr None)
         else Inr None))"
  by (simp add: mutation_intent_def process_message_def Let_def)

text \<open>Every statement that is issued comes from one of the three branches.\<close>

lemma intent_Some_cases:
  assumes "mutation_intent m = Inr (Some st)"
  shows "(\<exists>opn a pu pn. (opn = ''c'' \<or> opn = ''r'') \<and> py_get (msg_value m) ''op'' = Inr (JStr opn) \<and>
            py_get (msg_value m) ''after'' = Inr a \<and> py_index a ''order_id'' = Inr (stmt_key st) \<and>
            py_index a ''user_id'' = Inr pu \<and> py_index a ''name'' = Inr pn \<and>
            st = Upsert (stmt_key st) pu pn)
       \<or> (\<exists>a pu pn. py_get (msg_value m) ''op'' = Inr (JStr ''u'') \<and>
            py_get (msg_value m) ''after'' = Inr a \<and> py_index a ''order_id'' = Inr (stmt_key st) \<and>
            py_index a ''user_id'' = Inr pu \<and> py_index a ''name'' = Inr pn \<and>
            st = Update pu pn (stmt_key st))
       \<or> (\<exists>b. py_get (msg_value m) ''op'' = Inr (JStr ''d'') \<and>
            py_get (msg_value m) ''before'' = Inr b \<and> py_index b ''order_id'' = Inr (stmt_key st) \<and>
            st = Delete (stmt_key st))"
proof -
  from assms obtain op_v where t: "truthy (msg_value m)"
    and o: "py_get (msg_value m) ''op'' = Inr op_v"
    by (auto simp: intent_unfold bindE_eq_Inr split: if_splits)
  consider (cr) "op_v = JStr ''c'' \<or> op_v = JStr ''r''" | (u) "op_v = JStr ''u''"
    | (d) "op_v = JStr ''d''"
    | (other) "op_v \<noteq> JStr ''c''" "op_v \<noteq> JStr ''r''" "op_v \<noteq> JStr ''u''" "op_v \<noteq> JStr ''d''"
    by blast
  then show ?thesis
  proof cases
    case cr
    with assms t o obtain a p1 p2 p3 where "py_get (msg_value m) ''after'' = Inr a"
      "py_index a ''order_id'' = Inr p1" "py_index a ''user_id'' = Inr p2"
      "py_index a ''name'' = Inr p3" "st = Upsert p1 p2 p3"
      by (auto simp: intent_unfold bindE_eq_Inr split: if_splits)
    with cr o show ?thesis by auto
  next
    case u
    with assms t o obtain a p1 p2 p3 where "py_get (msg_value m) ''after'' = Inr a"
      "py_index a ''order_id'' = Inr p3" "py_index a ''user_id'' = Inr p1"
      "py_index a ''name'' = Inr p2" "st = Update p1 p2 p3"
      by (auto simp: intent_unfold bindE_eq_Inr split: if_splits)
    with u o show ?thesis by auto
  next
    case d
    with assms t o obtain b p1 where "py_get (msg_value m) ''before'' = Inr b"
      "py_index b ''order_id'' = Inr p1" "st = Delete p1"
      by (auto simp: intent_unfold bindE_eq_Inr split: if_splits)
    with d o show ?thesis by auto
  next
    case other
    with assms t o show ?thesis by (simp add: intent_unfold)
  qed
qed

lemma entity_key_source:
  assumes "entity_key m = Some k"
  shows "\<exists>opn. py_get (msg_value m) ''op'' = Inr (JStr opn) \<and> opn \<in> {''c'', ''r'', ''u'', ''d''}
            \<and> bindE (py_get (msg_value m) (if opn = ''d'' then ''before'' else ''after''))
                 (\<lambda>p. py_index p ''order_id'') = Inr k"
proof -
  from assms obtain st where st: "mutation_intent m = Inr (Some st)" and k: "stmt_key st = k"
    by (auto simp: entity_key_def split: sum.splits option.splits)
  from intent_Some_cases[OF st] consider
      (cr) opn a where "opn = ''c'' \<or> opn = ''r''" "py_get (msg_value m) ''op'' = Inr (JStr opn)"
        "py_get (msg_value m) ''after'' = Inr a" "py_index a ''order_id'' = Inr k"
    | (u) a where "py_get (msg_value m) ''op'' = Inr (JStr ''u'')"
        "py_get (msg_value m) ''after'' = Inr a" "py_index a ''order_id'' = Inr k"
    | (d) b where "py_get (msg_value m) ''op'' = Inr (JStr ''d'')"
        "py_get (msg_value m) ''before'' = Inr b" "py_index b ''order_id'' = Inr k"
    unfolding k by blast
  then show ?thesis
  proof cases
    case cr
    then show ?thesis by (intro exI[of _ opn]) auto
  next
    case u
    then show ?thesis by (intro exI[of _ "''u''"]) simp
  next
    case d
    then show ?thesis by (intro exI[of _ "''d''"]) simp
  qed
qed

text \<open>A projection that is missing, or lacks a field the branch reads, issues no statement.\<close>

lemma intent_missing_projection:
  assumes o: "py_get (msg_value m) ''op'' = Inr (JStr opn)"
    and k: "opn \<in> {''c'', ''r'', ''u'', ''d''}"
    and p: "py_get (msg_value m) (if opn = ''d'' then ''before'' else ''after'') = Inr p"
    and miss: "\<not> truthy p \<or>
        (\<exists>f \<in> set (if opn = ''d'' then [''order_id''] else [''order_id'', ''user_id'', ''name'']).
           \<forall>v. py_index p f \<noteq> Inr v)"
  shows "if truthy p then \<exists>e. mutation_intent m = Inl e else mutation_intent m = Inr None"
proof (cases "truthy p")
  case False
  then show ?thesis using o k p py_get_str_truthy[OF o]
    by (auto simp: intent_unfold)
next
  case True
  with miss obtain f
    where f: "f \<in> set (if opn = ''d'' then [''order_id''] else [''order_id'', ''user_id'', ''name''])"
      "\<forall>v. py_index p f \<noteq> Inr v"
    by blast
  have none_issued: "\<forall>st. mutation_intent m \<noteq> Inr (Some st)"
  proof (intro allI notI)
    fix st assume "mutation_intent m = Inr (Some st)"
    from intent_Some_cases[OF this] show False using o p f by (auto split: if_splits)
  qed
  have not_silent: "mutation_intent m \<noteq> Inr None"
    using True o k p py_get_str_truthy[OF o]
    by (auto simp: intent_unfold bindE_eq_Inr)
  have "\<exists>e. mutation_intent m = Inl e"
  proof (cases "mutation_intent m")
    case (Inl e)
    then show ?thesis by simp
  next
    case (Inr i)
    with none_issued not_silent show ?thesis by (cases i) simp_all
  qed
  with True show ?thesis by simp
qed

section \<open>Statements on the table\<close>

lemma pg_execute_idem:
  "pg_execute adapt st t = Inr t' \<Longrightarrow> pg_execute adapt st t' = Inr t'"
  by (cases st) (auto split: option.splits if_splits)

lemma pg_execute_frame:
  "pg_execute adapt st t = Inr t' \<Longrightarrow> adapt OrderId (stmt_key st) \<noteq> Some k \<Longrightarrow> t' k = t k"
  by (cases st) (auto split: option.splits if_splits)

lemma process_message_idem:
  "process_message m (pg_execute adapt) t = Inr t' \<Longrightarrow>
   process_message m (pg_execute adapt) t' = Inr t'"
  by (auto simp: process_message_intent pg_execute_idem split: sum.splits option.splits)

section \<open>One pass of the loop body\<close>

lemma main_step_healthy_orders:
  "orders (fst (main_step adapt (Healthy, m) s)) =
     (case process_message m (pg_execute adapt) (orders s) of Inr t \<Rightarrow> t | Inl e \<Rightarrow> orders s)"
  by (simp add: main_step_def Let_def split: sum.splits)

lemma main_step_unhealthy_orders:
  "h \<noteq> Healthy \<Longrightarrow> orders (fst (main_step adapt (h, m) s)) = orders s"
  by (cases h) (simp_all add: main_step_def Let_def process_message_intent
      split: sum.splits option.splits)





lemma main_step_no_mutation:
  assumes "h \<noteq> Closed"
  shows "mutation_intent m = Inr None \<Longrightarrow>
           main_step adapt (h, m) s = (s\<lparr>position := position s + 1\<rparr>, None)"
    and "mutation_intent m = Inl e \<Longrightarrow>
           main_step adapt (h, m) s =
             (s\<lparr>position := position s + 1, printed := printed s @ [e]\<rparr>, None)"
  using assms
  by (cases h; simp add: main_step_def Let_def process_message_intent statement_sent_def)+



section \<open>The Flink job keeps what it has written\<close>

lemma flink_job_keeps_rows:
  "t k \<noteq> None \<Longrightarrow> fst (flink_job es t) k \<noteq> None"
proof (induction es arbitrary: t)
  case Nil
  then show ?case by simp
next
  case (Cons e es)
  show ?case
  proof (cases "flink_select e")
    case None
    then show ?thesis using Cons by simp
  next
    case (Some r)
    show ?thesis
    proof (cases "sink_order_id r")
      case None
      then show ?thesis using Some Cons.prems by (simp add: sink_write_def)
    next
      case (Some j)
      have kept: "(t(j \<mapsto> sink_user_id r)) k \<noteq> None" using Cons.prems by simp
      have step: "flink_job (e # es) t = flink_job es (t(j \<mapsto> sink_user_id r))"
        using Some \<open>flink_select e = Some r\<close> by (simp add: sink_write_def)
      show ?thesis unfolding step using kept by (rule Cons.IH)
    qed
  qed
qed

section \<open>Update events\<close>

text \<open>
  Claim C1, as stated: an Update for a key without a row creates the row. On the code it
  does not: the Update \<^verbatim>\<open>{op: u, after: {order_id: 1, user_id: 9, name: B}}\<close> applied to the
  empty table returns normally and leaves the table empty.
\<close>

theorem update_of_absent_key_counterexample:
  "process_message update_1_9_B (pg_execute wire_adapt) Map.empty = Inr Map.empty"
  by (simp add: process_message_def update_1_9_B_def order_obj_def)

text \<open>
  Claim C1, amended: for every Update event whose \<^verbatim>\<open>after\<close> projection carries
  \<^verbatim>\<open>order_id\<close>, \<^verbatim>\<open>user_id\<close> and \<^verbatim>\<open>name\<close>, and every destination state without a row for
  the event's key, \<^verbatim>\<open>process_message\<close> issues a plain \<^verbatim>\<open>UPDATE\<close> that matches no row: it
  returns without an error and the destination is unchanged, so the key still has no row.
\<close>

theorem update_of_absent_key_changes_nothing:
  assumes "py_get (msg_value m) ''op'' = Inr (JStr ''u'')"
    and "py_get (msg_value m) ''after'' = Inr a"
    and "py_index a ''order_id'' = Inr pk"
    and "py_index a ''user_id'' = Inr pu"
    and "py_index a ''name'' = Inr pn"
    and "adapt OrderId pk = Some k" "adapt UserId pu = Some u" "adapt Name pn = Some n"
    and "t k = None"
  shows "process_message m (pg_execute adapt) t = Inr t"
  using assms(6-9) by (simp add: process_message_intent intent_update[OF assms(1-5)])

theorem update_of_absent_key_changes_nothing_witness:
  "[SqlInt 7 \<mapsto> (SqlInt 3, SqlText ''Ann'')] (SqlInt 1) = None \<and>
   process_message update_1_9_B (pg_execute wire_adapt) [SqlInt 7 \<mapsto> (SqlInt 3, SqlText ''Ann'')]
     = Inr [SqlInt 7 \<mapsto> (SqlInt 3, SqlText ''Ann'')]"
  using update_of_absent_key_changes_nothing[of update_1_9_B "order_obj 1 9 ''B''"
      "JNum 1" "JNum 9" "JStr ''B''" wire_adapt "SqlInt 1" "SqlInt 9" "SqlText ''B''"
      "[SqlInt 7 \<mapsto> (SqlInt 3, SqlText ''Ann'')]"]
  by (simp add: update_1_9_B_def order_obj_def)

section \<open>Failures of the writer\<close>




section \<open>Which fields reach the destination\<close>

text \<open>
  Claim C3, as stated: a Create event with \<^verbatim>\<open>order_id\<close>, \<^verbatim>\<open>user_id\<close> and \<^verbatim>\<open>name\<close> produces a
  destination row with \<^verbatim>\<open>order_id\<close> and \<^verbatim>\<open>user_id\<close> only. For \<^verbatim>\<open>process_message\<close> it does
  not: the Create \<^verbatim>\<open>{order_id: 7, user_id: 3, name: Ann}\<close> writes the name into the row of
  the table \<^verbatim>\<open>orders\<close>.
\<close>

theorem consumer_keeps_name_counterexample:
  "process_message create_7_3_Ann (pg_execute wire_adapt) Map.empty
     = Inr [SqlInt 7 \<mapsto> (SqlInt 3, SqlText ''Ann'')]"
  by (simp add: process_message_def create_7_3_Ann_def order_obj_def)

text \<open>
  Claim C3, amended: for every Create event whose \<^verbatim>\<open>after\<close> projection carries
  \<^verbatim>\<open>order_id\<close>, \<^verbatim>\<open>user_id\<close> and \<^verbatim>\<open>name\<close>, the Flink job writes to \<^verbatim>\<open>orders_flink\<close> a row
  with \<^verbatim>\<open>order_id\<close> and \<^verbatim>\<open>user_id\<close> only (its sink has no \<^verbatim>\<open>name\<close> column), while
  \<^verbatim>\<open>process_message\<close> writes to \<^verbatim>\<open>orders\<close> a row with all three fields, \<^verbatim>\<open>name\<close> included.
\<close>

theorem flink_drops_name_consumer_keeps_it:
  "(row_op e = Some ''c'' \<longrightarrow>
    row_after e = Some \<lparr>order_id = Some fk, user_id = Some fu, name = fn\<rparr> \<longrightarrow>
      flink_select e = Some \<lparr>sink_order_id = Some fk, sink_user_id = Some fu\<rparr>
      \<and> fst (flink_job [e] ft) = ft(fk \<mapsto> Some fu))
   \<and> (py_get (msg_value m) ''op'' = Inr (JStr ''c'') \<longrightarrow>
      py_get (msg_value m) ''after'' = Inr a \<longrightarrow>
      py_index a ''order_id'' = Inr pk \<longrightarrow>
      py_index a ''user_id'' = Inr pu \<longrightarrow>
      py_index a ''name'' = Inr pn \<longrightarrow>
      adapt OrderId pk = Some k \<longrightarrow> adapt UserId pu = Some u \<longrightarrow> adapt Name pn = Some n \<longrightarrow>
      k \<noteq> SqlNull \<longrightarrow>
        process_message m (pg_execute adapt) t = Inr (t(k \<mapsto> (u, n))))"
proof (intro conjI impI)
  assume "row_op e = Some ''c''"
    and "row_after e = Some \<lparr>order_id = Some fk, user_id = Some fu, name = fn\<rparr>"
  then show sel: "flink_select e = Some \<lparr>sink_order_id = Some fk, sink_user_id = Some fu\<rparr>"
    by (simp add: flink_select_def coalesce_def row_field_def)
  then show "fst (flink_job [e] ft) = ft(fk \<mapsto> Some fu)"
    by (simp add: sink_write_def)
next
  assume a: "py_get (msg_value m) ''op'' = Inr (JStr ''c'')"
    "py_get (msg_value m) ''after'' = Inr a"
    "py_index a ''order_id'' = Inr pk" "py_index a ''user_id'' = Inr pu"
    "py_index a ''name'' = Inr pn"
    and b: "adapt OrderId pk = Some k" "adapt UserId pu = Some u" "adapt Name pn = Some n"
    "k \<noteq> SqlNull"
  have "mutation_intent m = Inr (Some (Upsert pk pu pn))"
    using intent_create[OF a(1) _ a(2-5)] by simp
  then show "process_message m (pg_execute adapt) t = Inr (t(k \<mapsto> (u, n)))"
    using b by (simp add: process_message_intent)
qed

theorem flink_drops_name_consumer_keeps_it_witness:
  "flink_select flink_create_7_3_Ann = Some \<lparr>sink_order_id = Some 7, sink_user_id = Some 3\<rparr>
   \<and> fst (flink_job [flink_create_7_3_Ann] Map.empty) = [7 \<mapsto> Some 3]
   \<and> process_message create_7_3_Ann (pg_execute wire_adapt) [SqlInt 1 \<mapsto> (SqlInt 5, SqlText ''A'')]
       = Inr [SqlInt 1 \<mapsto> (SqlInt 5, SqlText ''A''), SqlInt 7 \<mapsto> (SqlInt 3, SqlText ''Ann'')]"
  using flink_drops_name_consumer_keeps_it[of flink_create_7_3_Ann 7 3 "Some ''Ann''" Map.empty
      create_7_3_Ann "order_obj 7 3 ''Ann''" "JNum 7" "JNum 3" "JStr ''Ann''" wire_adapt
      "SqlInt 7" "SqlInt 3" "SqlText ''Ann''" "[SqlInt 1 \<mapsto> (SqlInt 5, SqlText ''A'')]"]
  by (simp add: flink_create_7_3_Ann_def create_7_3_Ann_def order_obj_def sink_write_def)

section \<open>Redelivery\<close>

text \<open>
  Claim C4: for every message and every destination state, handling the message twice in
  succession leaves the same table as handling it once; and a Delete whose key has no row
  returns without an error and changes nothing, the first time and the second.
\<close>

theorem applying_twice_is_applying_once:
  "orders (fst (main_step adapt (Healthy, m) (fst (main_step adapt (Healthy, m) s))))
     = orders (fst (main_step adapt (Healthy, m) s))
   \<and> (py_get (msg_value m) ''op'' = Inr (JStr ''d'') \<longrightarrow>
      py_get (msg_value m) ''before'' = Inr b \<longrightarrow>
      py_index b ''order_id'' = Inr pk \<longrightarrow>
      adapt OrderId pk = Some k \<longrightarrow>
      t k = None \<longrightarrow>
        process_message m (pg_execute adapt) t = Inr t
        \<and> bindE (process_message m (pg_execute adapt) t) (process_message m (pg_execute adapt))
            = Inr t)"
proof (intro conjI impI)
  show "orders (fst (main_step adapt (Healthy, m) (fst (main_step adapt (Healthy, m) s))))
     = orders (fst (main_step adapt (Healthy, m) s))"
  proof (cases "process_message m (pg_execute adapt) (orders s)")
    case (Inl e)
    then show ?thesis by (simp add: main_step_healthy_orders)
  next
    case (Inr t')
    then show ?thesis
      by (simp add: main_step_healthy_orders process_message_idem)
  qed
next
  assume a: "py_get (msg_value m) ''op'' = Inr (JStr ''d'')"
    "py_get (msg_value m) ''before'' = Inr b"
    "py_index b ''order_id'' = Inr pk"
    and k: "adapt OrderId pk = Some k" "t k = None"
  have "t(k := None) = t" using k(2) by auto
  then show once: "process_message m (pg_execute adapt) t = Inr t"
    using k by (simp add: process_message_intent intent_delete[OF a])
  then show "bindE (process_message m (pg_execute adapt) t) (process_message m (pg_execute adapt))
      = Inr t"
    by simp
qed

theorem applying_twice_is_applying_once_witness:
  "orders (fst (main_step wire_adapt (Healthy, delete_1)
       (fst (main_step wire_adapt (Healthy, delete_1) empty_state))))
     = orders (fst (main_step wire_adapt (Healthy, delete_1) empty_state))
   \<and> Map.empty (SqlInt 1) = (None :: (sqlval \<times> sqlval) option)
   \<and> process_message delete_1 (pg_execute wire_adapt) Map.empty = Inr Map.empty
   \<and> bindE (process_message delete_1 (pg_execute wire_adapt) Map.empty)
        (process_message delete_1 (pg_execute wire_adapt)) = Inr Map.empty"
  using applying_twice_is_applying_once[of wire_adapt delete_1 empty_state
      "JObj [(''order_id'', JNum 1)]" "JNum 1" "SqlInt 1" Map.empty]
  by (simp add: delete_1_def)

section \<open>The end-to-end scenario\<close>

text \<open>
  Claim C5: starting from a destination without a row for \<^verbatim>\<open>order_id = 1\<close>, the consumer
  loop applied to the Create \<^verbatim>\<open>{1, 5, A}\<close>, the Update \<^verbatim>\<open>{1, 9, B}\<close> and the Delete of
  \<^verbatim>\<open>order_id = 1\<close>, in this order, leaves no row for \<^verbatim>\<open>order_id = 1\<close>; nothing is printed
  and no exception leaves the loop.
\<close>

theorem create_update_delete_leaves_no_row:
  "t (SqlInt 1) = None \<Longrightarrow>
   orders (fst (main_loop wire_adapt
       [(Healthy, encoded create_1_5_A), (Healthy, encoded update_1_9_B), (Healthy, encoded delete_1)]
       \<lparr>orders = t, printed = [], position = 0\<rparr>)) (SqlInt 1) = None
   \<and> printed (fst (main_loop wire_adapt
       [(Healthy, encoded create_1_5_A), (Healthy, encoded update_1_9_B), (Healthy, encoded delete_1)]
       \<lparr>orders = t, printed = [], position = 0\<rparr>)) = []
   \<and> snd (main_loop wire_adapt
       [(Healthy, encoded create_1_5_A), (Healthy, encoded update_1_9_B), (Healthy, encoded delete_1)]
       \<lparr>orders = t, printed = [], position = 0\<rparr>) = None"
  by (simp add: main_step_def process_message_def create_1_5_A_def update_1_9_B_def
      delete_1_def order_obj_def encoded_def)

theorem create_update_delete_leaves_no_row_witness:
  "[SqlInt 7 \<mapsto> (SqlInt 3, SqlText ''Ann'')] (SqlInt 1) = None
   \<and> orders (fst (main_loop wire_adapt
       [(Healthy, encoded create_1_5_A), (Healthy, encoded update_1_9_B), (Healthy, encoded delete_1)]
       \<lparr>orders = [SqlInt 7 \<mapsto> (SqlInt 3, SqlText ''Ann'')], printed = [], position = 0\<rparr>))
       (SqlInt 1) = None"
proof -
  have h: "[SqlInt 7 \<mapsto> (SqlInt 3, SqlText ''Ann'')] (SqlInt 1) = None" by simp
  from create_update_delete_leaves_no_row[of "[SqlInt 7 \<mapsto> (SqlInt 3, SqlText ''Ann'')]", OF h] h
  show ?thesis by blast
qed

section \<open>Where the key comes from\<close>

text \<open>
  Claim C6, as stated: for every event the key of the mutation is
  \<^verbatim>\<open>COALESCE(after.key, before.key)\<close>, Delete included. For \<^verbatim>\<open>process_message\<close> it is not: a
  Delete whose \<^verbatim>\<open>before\<close> has \<^verbatim>\<open>order_id = 1\<close> and whose \<^verbatim>\<open>after\<close> has \<^verbatim>\<open>order_id = 2\<close>
  deletes key 1, where the rule gives key 2.
\<close>

theorem delete_key_counterexample:
  "entity_key delete_1_after_2 = Some (JNum 1)
   \<and> spec_coalesce_key delete_1_after_2 = Some (JNum 2)"
  by (simp add: entity_key_def mutation_intent_def process_message_def delete_1_after_2_def
      order_obj_def spec_coalesce_key_def projection_key_def coalesce_def)

text \<open>
  Claim C6, amended: \<^verbatim>\<open>process_message\<close> takes the key of a Create, Read or Update mutation
  from \<^verbatim>\<open>after\<close> and the key of a Delete from \<^verbatim>\<open>before\<close>, never from the other projection.
  For a key that is not \<^verbatim>\<open>None\<close> this is \<^verbatim>\<open>COALESCE(after.key, before.key)\<close> for every
  Create, Read and Update, and for every Delete whose \<^verbatim>\<open>after\<close> carries no key. The Flink
  query computes \<^verbatim>\<open>COALESCE(after.order_id, before.order_id)\<close> for the operations
  \<^verbatim>\<open>c\<close>, \<^verbatim>\<open>r\<close>, \<^verbatim>\<open>u\<close> and produces no row for a Delete.
\<close>

theorem key_comes_from_the_operation_projection:
  "(entity_key m = Some k \<longrightarrow>
      (\<exists>opn. py_get (msg_value m) ''op'' = Inr (JStr opn) \<and> opn \<in> {''c'', ''r'', ''u'', ''d''} \<and>
         bindE (py_get (msg_value m) (if opn = ''d'' then ''before'' else ''after''))
           (\<lambda>p. py_index p ''order_id'') = Inr k))
   \<and> (entity_key m = Some k \<longrightarrow> k \<noteq> JNull \<longrightarrow>
        (py_get (msg_value m) ''op'' = Inr (JStr ''d'') \<longrightarrow>
           projection_key (msg_value m) ''after'' = None) \<longrightarrow>
        spec_coalesce_key m = Some k)
   \<and> (flink_select e = Some r \<longrightarrow>
        row_op e \<in> {Some ''c'', Some ''r'', Some ''u''} \<and>
        sink_order_id r =
          coalesce (row_field (row_after e) order_id) (row_field (row_before e) order_id))
   \<and> (row_op e = Some ''d'' \<longrightarrow> flink_select e = None)"
proof (intro conjI impI)
  assume ek: "entity_key m = Some k"
  show "\<exists>opn. py_get (msg_value m) ''op'' = Inr (JStr opn) \<and> opn \<in> {''c'', ''r'', ''u'', ''d''} \<and>
         bindE (py_get (msg_value m) (if opn = ''d'' then ''before'' else ''after''))
           (\<lambda>p. py_index p ''order_id'') = Inr k"
    using entity_key_source[OF ek] .
next
  assume ek: "entity_key m = Some k" and nn: "k \<noteq> JNull"
    and del: "py_get (msg_value m) ''op'' = Inr (JStr ''d'') \<longrightarrow>
           projection_key (msg_value m) ''after'' = None"
  from entity_key_source[OF ek] obtain opn where
    o: "py_get (msg_value m) ''op'' = Inr (JStr opn)" and
    b: "bindE (py_get (msg_value m) (if opn = ''d'' then ''before'' else ''after''))
                 (\<lambda>p. py_index p ''order_id'') = Inr k"
    by blast
  show "spec_coalesce_key m = Some k"
  proof (cases "opn = ''d''")
    case True
    with o del have "projection_key (msg_value m) ''after'' = None" by simp
    moreover from True b nn have "projection_key (msg_value m) ''before'' = Some k"
      by (simp add: projection_key_def)
    ultimately show ?thesis by (simp add: spec_coalesce_key_def coalesce_def)
  next
    case False
    with b nn have "projection_key (msg_value m) ''after'' = Some k"
      by (simp add: projection_key_def)
    then show ?thesis by (simp add: spec_coalesce_key_def coalesce_def)
  qed
next
  assume "flink_select e = Some r"
  then show "row_op e \<in> {Some ''c'', Some ''r'', Some ''u''}"
    by (auto simp: flink_select_def split: if_splits)
next
  assume "flink_select e = Some r"
  then show "sink_order_id r =
          coalesce (row_field (row_after e) order_id) (row_field (row_before e) order_id)"
    by (auto simp: flink_select_def split: if_splits)
next
  assume "row_op e = Some ''d''"
  then show "flink_select e = None" by (simp add: flink_select_def)
qed

theorem key_comes_from_the_operation_projection_witness:
  "entity_key delete_1 = Some (JNum 1)
   \<and> projection_key (msg_value delete_1) ''after'' = None
   \<and> spec_coalesce_key delete_1 = Some (JNum 1)
   \<and> row_op flink_delete_7 = Some ''d''
   \<and> flink_select flink_delete_7 = None"
proof -
  have ek: "entity_key delete_1 = Some (JNum 1)"
    by (simp add: entity_key_def mutation_intent_def process_message_def delete_1_def)
  have pa: "projection_key (msg_value delete_1) ''after'' = None"
    by (simp add: projection_key_def delete_1_def)
  have fd: "row_op flink_delete_7 = Some ''d''" by (simp add: flink_delete_7_def)
  from key_comes_from_the_operation_projection[of delete_1 "JNum 1" flink_delete_7] ek pa fd
  show ?thesis by simp
qed

section \<open>Events without their projection\<close>

text \<open>
  Claim C7, as stated: an event whose required projection is missing is skipped with a
  logged diagnostic. On the code a Create without \<^verbatim>\<open>after\<close> and \<^verbatim>\<open>before\<close> is skipped, but
  nothing is printed.
\<close>

theorem skipped_without_log_counterexample:
  "main_step wire_adapt (Healthy, create_without_after) empty_state
     = (\<lparr>orders = Map.empty, printed = [], position = 1\<rparr>, None)"
  by (simp add: main_step_def process_message_def create_without_after_def empty_state_def)

text \<open>
  Claim C7, amended: for every event with operation \<^verbatim>\<open>c\<close>, \<^verbatim>\<open>r\<close>, \<^verbatim>\<open>u\<close> or \<^verbatim>\<open>d\<close> whose
  projection (\<^verbatim>\<open>before\<close> for \<^verbatim>\<open>d\<close>, \<^verbatim>\<open>after\<close> otherwise) is absent or empty, or lacks a field
  the statement needs, and as long as the destination connection is not closed, the loop
  leaves the destination unchanged, advances the position by one and goes on. A diagnostic
  is printed exactly when the projection is there but a field cannot be read from it; an
  absent or empty projection is skipped silently.
\<close>

theorem missing_projection_is_skipped:
  assumes "h \<noteq> Closed"
    and "py_get (msg_value m) ''op'' = Inr (JStr opn)"
    and "opn \<in> {''c'', ''r'', ''u'', ''d''}"
    and "py_get (msg_value m) (if opn = ''d'' then ''before'' else ''after'') = Inr p"
    and "\<not> truthy p \<or>
        (\<exists>f \<in> set (if opn = ''d'' then [''order_id''] else [''order_id'', ''user_id'', ''name'']).
           \<forall>v. py_index p f \<noteq> Inr v)"
  shows "orders (fst (main_step adapt (h, m) s)) = orders s
       \<and> position (fst (main_step adapt (h, m) s)) = position s + 1
       \<and> snd (main_step adapt (h, m) s) = None
       \<and> (if truthy p then \<exists>e. printed (fst (main_step adapt (h, m) s)) = printed s @ [e]
          else printed (fst (main_step adapt (h, m) s)) = printed s)"
proof (cases "truthy p")
  case True
  with intent_missing_projection[OF assms(2-5)] obtain e where "mutation_intent m = Inl e"
    by auto
  from main_step_no_mutation(2)[OF assms(1) this] True show ?thesis by simp
next
  case False
  with intent_missing_projection[OF assms(2-5)] have "mutation_intent m = Inr None" by simp
  from main_step_no_mutation(1)[OF assms(1) this] False show ?thesis by simp
qed

theorem missing_projection_is_skipped_witness:
  "main_step wire_adapt
     (Healthy, \<lparr>msg_value = JObj [(''op'', JStr ''u''), (''after'', JObj [(''order_id'', JNum 1)])]\<rparr>)
     empty_state
     = (\<lparr>orders = Map.empty, printed = [KeyError ''user_id''], position = 1\<rparr>, None)"
  using missing_projection_is_skipped[of Healthy
      "\<lparr>msg_value = JObj [(''op'', JStr ''u''), (''after'', JObj [(''order_id'', JNum 1)])]\<rparr>"
      "''u''" "JObj [(''order_id'', JNum 1)]" wire_adapt empty_state]
  by (simp add: main_step_def process_message_def empty_state_def)

section \<open>Tombstones and unknown operations\<close>

text \<open>
  Claim C8, as stated: every decodable payload whose \<^verbatim>\<open>op\<close> field is absent is handled
  without a mutation and without an error. A payload that is not an object has no \<^verbatim>\<open>op\<close>
  field, and for a non-empty one \<^verbatim>\<open>payload.get('op')\<close> raises: on the JSON array \<^verbatim>\<open>[1]\<close>
  \<^verbatim>\<open>process_message\<close> ends with \<^verbatim>\<open>AttributeError\<close>.
\<close>

theorem non_object_payload_counterexample:
  "process_message \<lparr>msg_value = JArr [JNum 1]\<rparr> (pg_execute wire_adapt) Map.empty
     = Inl AttributeError"
  by (simp add: process_message_def)

text \<open>
  Claim C8, amended: for every message whose value is empty (a tombstone, or any other
  false value), and for every object payload whose \<^verbatim>\<open>op\<close> field is absent or is none of
  \<^verbatim>\<open>c\<close>, \<^verbatim>\<open>r\<close>, \<^verbatim>\<open>u\<close>, \<^verbatim>\<open>d\<close>, \<^verbatim>\<open>process_message\<close> returns without an error and without
  calling the cursor: the destination state is the one it was given, whatever the cursor
  would do. For every other payload that is not an object (a non-empty array or string, a
  non-zero number, \<^verbatim>\<open>true\<close>), \<^verbatim>\<open>process_message\<close> raises \<^verbatim>\<open>AttributeError\<close> before it
  reaches the cursor; the loop prints the error, and the destination is unchanged.
\<close>

theorem tombstone_or_unknown_op_is_noop:
  "((\<not> truthy (msg_value m) \<or>
      (\<exists>op_v. py_get (msg_value m) ''op'' = Inr op_v \<and>
         op_v \<noteq> JStr ''c'' \<and> op_v \<noteq> JStr ''r'' \<and> op_v \<noteq> JStr ''u'' \<and> op_v \<noteq> JStr ''d'')) \<longrightarrow>
      process_message m cursor s = Inr s)
   \<and> (truthy (msg_value m) \<longrightarrow> (\<forall>kvs. msg_value m \<noteq> JObj kvs) \<longrightarrow>
        process_message m cursor s = Inl AttributeError
        \<and> (h \<noteq> Closed \<longrightarrow>
             main_step adapt (h, m) ls =
               (ls\<lparr>position := position ls + 1, printed := printed ls @ [AttributeError]\<rparr>, None)))"
proof (intro conjI impI)
  assume "\<not> truthy (msg_value m) \<or>
      (\<exists>op_v. py_get (msg_value m) ''op'' = Inr op_v \<and>
         op_v \<noteq> JStr ''c'' \<and> op_v \<noteq> JStr ''r'' \<and> op_v \<noteq> JStr ''u'' \<and> op_v \<noteq> JStr ''d'')"
  then show "process_message m cursor s = Inr s"
    by (auto simp: process_message_def Let_def)
next
  assume t: "truthy (msg_value m)" and n: "\<forall>kvs. msg_value m \<noteq> JObj kvs"
  then have g: "py_get (msg_value m) ''op'' = Inl AttributeError"
    by (cases "msg_value m") simp_all
  with t show "process_message m cursor s = Inl AttributeError"
    by (simp add: process_message_def Let_def)
next
  assume t: "truthy (msg_value m)" and n: "\<forall>kvs. msg_value m \<noteq> JObj kvs"
    and h: "h \<noteq> Closed"
  from n have g: "py_get (msg_value m) ''op'' = Inl AttributeError"
    by (cases "msg_value m") simp_all
  with t have "mutation_intent m = Inl AttributeError"
    by (simp add: intent_unfold)
  from main_step_no_mutation(2)[OF h this]
  show "main_step adapt (h, m) ls =
      (ls\<lparr>position := position ls + 1, printed := printed ls @ [AttributeError]\<rparr>, None)" .
qed

theorem tombstone_or_unknown_op_is_noop_witness:
  "process_message \<lparr>msg_value = JNull\<rparr> (\<lambda>st t. Inl OperationalError) empty_state = Inr empty_state
   \<and> py_get (msg_value unknown_op) ''op'' = Inr (JStr ''t'')
   \<and> process_message unknown_op (\<lambda>st t. Inl OperationalError) empty_state = Inr empty_state
   \<and> py_get (JObj [(''after'', order_obj 1 5 ''A'')]) ''op'' = Inr JNull
   \<and> process_message \<lparr>msg_value = JObj [(''after'', order_obj 1 5 ''A'')]\<rparr>
       (\<lambda>st t. Inl OperationalError) empty_state = Inr empty_state
   \<and> process_message \<lparr>msg_value = JStr ''c''\<rparr> (\<lambda>st t. Inl OperationalError) empty_state
       = Inl AttributeError
   \<and> main_step wire_adapt (Healthy, \<lparr>msg_value = JStr ''c''\<rparr>) empty_state
       = (\<lparr>orders = Map.empty, printed = [AttributeError], position = 1\<rparr>, None)"
proof -
  have a: "\<not> truthy (msg_value \<lparr>msg_value = JNull\<rparr>)" by simp
  have b: "py_get (msg_value unknown_op) ''op'' = Inr (JStr ''t'')"
    by (simp add: unknown_op_def)
  have c: "py_get (JObj [(''after'', order_obj 1 5 ''A'')]) ''op'' = Inr JNull" by simp
  have d: "truthy (msg_value \<lparr>msg_value = JStr ''c''\<rparr>)"
    "\<forall>kvs. msg_value \<lparr>msg_value = JStr ''c''\<rparr> \<noteq> JObj kvs" "Healthy \<noteq> Closed"
    by simp_all
  have "process_message \<lparr>msg_value = JNull\<rparr> (\<lambda>st t. Inl OperationalError) empty_state
      = Inr empty_state"
    using a tombstone_or_unknown_op_is_noop[of "\<lparr>msg_value = JNull\<rparr>" "\<lambda>st t. Inl OperationalError" empty_state Healthy wire_adapt empty_state] by blast
  moreover have "process_message unknown_op (\<lambda>st t. Inl OperationalError) empty_state
      = Inr empty_state"
    using b tombstone_or_unknown_op_is_noop[of unknown_op "\<lambda>st t. Inl OperationalError" empty_state Healthy wire_adapt empty_state] by auto
  moreover have "process_message \<lparr>msg_value = JObj [(''after'', order_obj 1 5 ''A'')]\<rparr>
       (\<lambda>st t. Inl OperationalError) empty_state = Inr empty_state"
    using c tombstone_or_unknown_op_is_noop[of "\<lparr>msg_value = JObj [(''after'', order_obj 1 5 ''A'')]\<rparr>"
        "\<lambda>st t. Inl OperationalError" empty_state Healthy wire_adapt empty_state]
    by auto
  moreover have "process_message \<lparr>msg_value = JStr ''c''\<rparr> (\<lambda>st t. Inl OperationalError) empty_state
       = Inl AttributeError"
    using d tombstone_or_unknown_op_is_noop[of "\<lparr>msg_value = JStr ''c''\<rparr>" "\<lambda>st t. Inl OperationalError" empty_state Healthy wire_adapt empty_state] by blast
  moreover have "main_step wire_adapt (Healthy, \<lparr>msg_value = JStr ''c''\<rparr>) empty_state
       = (empty_state\<lparr>position := position empty_state + 1,
            printed := printed empty_state @ [AttributeError]\<rparr>, None)"
    using d tombstone_or_unknown_op_is_noop[of "\<lparr>msg_value = JStr ''c''\<rparr>" "\<lambda>st t. Inl OperationalError" empty_state Healthy wire_adapt empty_state]
    by blast
  ultimately show ?thesis using b c by (simp add: empty_state_def)
qed

section \<open>Deletes in the Flink job\<close>

text \<open>
  Claim C9: the Flink query passes an event to its sink exactly when the operation is
  \<^verbatim>\<open>c\<close>, \<^verbatim>\<open>r\<close> or \<^verbatim>\<open>u\<close>; a Delete event produces no row and leaves the job's table as it
  is; and no sequence of events ever removes a row of \<^verbatim>\<open>orders_flink\<close>, so a row deleted
  at the source stays in the Flink replica.
\<close>

theorem flink_job_never_deletes:
  "(flink_select e \<noteq> None \<longleftrightarrow> row_op e \<in> {Some ''c'', Some ''r'', Some ''u''})
   \<and> (row_op e = Some ''d'' \<longrightarrow> flink_select e = None \<and> flink_job (e # es) t = flink_job es t)
   \<and> (t k \<noteq> None \<longrightarrow> fst (flink_job es t) k \<noteq> None)"
  by (auto simp: flink_select_def flink_job_keeps_rows)

theorem flink_job_never_deletes_witness:
  "row_op flink_delete_7 = Some ''d''
   \<and> flink_select flink_delete_7 = None
   \<and> flink_job [flink_delete_7] [7 \<mapsto> Some 3] = ([7 \<mapsto> Some 3], Running)
   \<and> fst (flink_job [flink_create_7_3_Ann, flink_delete_7] Map.empty) 7 = Some (Some 3)"
proof -
  have d: "row_op flink_delete_7 = Some ''d''" by (simp add: flink_delete_7_def)
  have c: "flink_job [flink_create_7_3_Ann] Map.empty = ([7 \<mapsto> Some 3], Running)"
    by (simp add: flink_create_7_3_Ann_def flink_select_def sink_write_def coalesce_def
        row_field_def)
  from flink_job_never_deletes[of flink_delete_7 "[]" "[7 \<mapsto> Some 3]" 7] d
  have s: "flink_select flink_delete_7 = None"
    and j: "flink_job [flink_delete_7] [7 \<mapsto> Some 3] = flink_job [] [7 \<mapsto> Some 3]"
    by simp_all
  have "flink_job [flink_create_7_3_Ann, flink_delete_7] Map.empty
      = flink_job [flink_delete_7] [7 \<mapsto> Some 3]"
    by (simp add: flink_create_7_3_Ann_def flink_select_def sink_write_def coalesce_def
        row_field_def)
  with d s j show ?thesis by simp
qed

section \<open>Rows of other keys\<close>

text \<open>
  Claim C10: for every message, every destination state and every state of the
  connection, handling the message leaves every row unchanged whose key is not the key of
  the message's mutation; when the message issues no mutation, every row is unchanged.
\<close>

theorem other_rows_untouched:
  assumes "\<forall>j. entity_key m = Some j \<longrightarrow> adapt OrderId j \<noteq> Some k"
  shows "orders (fst (main_step adapt (h, m) s)) k = orders s k"
proof (cases "h = Healthy")
  case False
  then show ?thesis by (simp add: main_step_unhealthy_orders)
next
  case True
  show ?thesis
  proof (cases "mutation_intent m")
    case (Inl e)
    then show ?thesis using True by (simp add: main_step_healthy_orders process_message_intent)
  next
    case (Inr i)
    show ?thesis
    proof (cases i)
      case None
      with Inr show ?thesis using True
        by (simp add: main_step_healthy_orders process_message_intent)
    next
      case (Some st)
      with Inr have "entity_key m = Some (stmt_key st)" by (simp add: entity_key_def)
      with assms have "adapt OrderId (stmt_key st) \<noteq> Some k" by simp
      then show ?thesis using Inr Some True
        by (auto simp: main_step_healthy_orders process_message_intent pg_execute_frame
            split: sum.splits)
    qed
  qed
qed

theorem other_rows_untouched_witness:
  "entity_key create_7_3_Ann = Some (JNum 7)
   \<and> wire_adapt OrderId (JNum 7) = Some (SqlInt 7)
   \<and> orders (fst (main_step wire_adapt (Healthy, create_7_3_Ann)
        \<lparr>orders = [SqlInt 1 \<mapsto> (SqlInt 5, SqlText ''A'')], printed = [], position = 0\<rparr>))
        (SqlInt 1) = Some (SqlInt 5, SqlText ''A'')"
proof -
  have ek: "entity_key create_7_3_Ann = Some (JNum 7)"
    by (simp add: entity_key_def mutation_intent_def process_message_def create_7_3_Ann_def
        order_obj_def)
  then have other: "\<forall>j. entity_key create_7_3_Ann = Some j \<longrightarrow>
      wire_adapt OrderId j \<noteq> Some (SqlInt 1)"
    by simp
  from other_rows_untouched[of create_7_3_Ann wire_adapt "SqlInt 1" Healthy
      "\<lparr>orders = [SqlInt 1 \<mapsto> (SqlInt 5, SqlText ''A'')], printed = [], position = 0\<rparr>",
      OF other] ek
  show ?thesis by simp
qed

end
